theory Spec2Isabelle
  imports Main "HOL-Library.Sublist" "HOL-Library.AList" "HOL-Library.Multiset"
begin

section \<open>Strings\<close>

text \<open>
  A Python \<open>str\<close> is modelled as a \<open>string\<close>, one \<open>char\<close> per code point (the code
  points below 256). \<open>len\<close> is \<open>length\<close>, and \<open>w in s\<close> on two strings is the
  contiguous-substring test \<open>sublist w s\<close>.
\<close>

definition char_lower :: "char \<Rightarrow> char" where
  \<comment> \<open>\<open>str.lower()\<close> on one code point: A-Z, and the Latin-1 capitals, move up by 32.\<close>
  "char_lower c =
     (let n = (of_char c :: nat)
      in if (65 \<le> n \<and> n \<le> 90) \<or> (192 \<le> n \<and> n \<le> 214) \<or> (216 \<le> n \<and> n \<le> 222)
         then char_of (n + 32) else c)"

definition lower :: "string \<Rightarrow> string" where
  "lower s = map char_lower s"

definition char_upper :: "char \<Rightarrow> char" where
  \<comment> \<open>\<open>str.upper()\<close> on one ASCII code point (the company names are ASCII).\<close>
  "char_upper c =
     (let n = (of_char c :: nat)
      in if 97 \<le> n \<and> n \<le> 122 then char_of (n - 32) else c)"

definition upper :: "string \<Rightarrow> string" where
  "upper s = map char_upper s"

definition digit_char :: "nat \<Rightarrow> char" where
  "digit_char d = char_of (48 + d)"

fun str_nat :: "nat \<Rightarrow> string" where
  \<comment> \<open>\<open>str(i)\<close> for a non-negative integer.\<close>
  "str_nat n = (if n < 10 then [digit_char n] else str_nat (n div 10) @ [digit_char (n mod 10)])"

declare str_nat.simps [simp del]

fun join :: "string \<Rightarrow> string list \<Rightarrow> string" where
  \<comment> \<open>\<open>sep.join(lines)\<close>\<close>
  "join sep [] = []"
| "join sep [x] = x"
| "join sep (x # y # ys) = x @ sep @ join sep (y # ys)"

definition has_keyword :: "string list \<Rightarrow> string \<Rightarrow> bool" where
  \<comment> \<open>\<open>any(word in title.lower() for word in words)\<close>\<close>
  "has_keyword words title = list_ex (\<lambda>word. sublist word (lower title)) words"

section \<open>The network and Python's sets\<close>

text \<open>
  The scripts read the outside world through \<open>session.get\<close> only. A request is named by
  the site it goes to and by its query (the URL is the site's fixed prefix followed by the
  quoted query). A request either raises (connection error, timeout) or returns a response
  with a status code and a content. Of the content the scripts read three things: the stripped
  texts of the anchors of class \<open>result__a\<close>, in document order; for each \<open>div\<close> of class
  \<open>topic-title\<close> the stripped text of its first anchor, if it has one; and the decoded JSON
  document, of which only the \<open>items\<close> are read (\<open>None\<close> when decoding or reading them
  raises).
\<close>

datatype endpoint = DuckDuckGo | LeetCode | GitHub

record repo =
  repo_name :: string
  repo_description :: "string option"

record body =
  result_anchors :: "string list"
  topic_anchors :: "string option list"
  json_items :: "repo list option"

datatype outcome = Raises | Reply int body

type_synonym network = "endpoint \<Rightarrow> string \<Rightarrow> outcome"

text \<open>
  \<open>list(set(xs))\<close> keeps one copy of every element of \<open>xs\<close>, in the iteration order of
  the set, which Python leaves unspecified (for strings it changes from one process to the
  next). The order is a parameter of the model: any function that returns the elements of
  its argument, each once.
\<close>

type_synonym set_order = "string list \<Rightarrow> string list"

definition set_iteration :: "set_order \<Rightarrow> bool" where
  "set_iteration ord \<longleftrightarrow> (\<forall>xs. distinct (ord xs) \<and> set (ord xs) = set xs)"

section \<open>scrape\_questions.py\<close>

definition known_questions :: "(string \<times> string list) list" where
  "known_questions =
    [(''Atlassian'',
       [''Design a collaborative document editing system like Confluence'',
        ''Design a project management tool like Jira'',
        ''Design a real-time chat system for teams'',
        ''Design a file sharing platform'',
        ''Design a notification system'']),
     (''PayPal'',
       [''Design a payment processing system'',
        ''Design a fraud detection system'',
        ''Design a digital wallet'',
        ''Design a money transfer system'',
        ''Design a merchant payment gateway'']),
     (''Mastercard'',
       [''Design a credit card transaction system'',
        ''Design a real-time fraud detection system'',
        ''Design a global payment network'',
        ''Design a loyalty rewards system'',
        ''Design a merchant acquiring platform''])]"

definition search_questions_found :: "network \<Rightarrow> string \<Rightarrow> string list" where
  \<comment> \<open>The list \<open>questions\<close> after the \<open>try\<close> block of \<open>search_questions\<close>.\<close>
  "search_questions_found net company =
     (case net DuckDuckGo
             (company @ '' system design interview questions site:reddit.com OR site:leetcode.com'') of
        Raises \<Rightarrow> []
      | Reply status_code content \<Rightarrow>
          if status_code = 200
          then filter (has_keyword [''design'', ''system'', ''interview''])
                 (take 5 (result_anchors content))
          else [])"

definition search_questions :: "network \<Rightarrow> set_order \<Rightarrow> string \<Rightarrow> string list" where
  "search_questions net ord company =
     (let questions = search_questions_found net company;
          questions = (case map_of known_questions company of
                         Some known \<Rightarrow> questions @ known
                       | None \<Rightarrow> questions)
      in ord questions)"

definition companies :: "string list" where
  "companies = [''Atlassian'', ''PayPal'', ''Mastercard'']"

definition newline :: string where
  "newline = [CHR 0x0A]"

definition company_lines :: "string \<Rightarrow> string list \<Rightarrow> string list" where
  \<comment> \<open>What one round of the loop of \<open>main\<close> appends to \<open>all_content\<close>.\<close>
  "company_lines company questions =
     [newline @ replicate 60 CHR ''='',
      upper company @ '' SYSTEM DESIGN QUESTIONS'',
      replicate 60 CHR ''='']
     @ map (\<lambda>(i, question). str_nat i @ ''. '' @ question)
         (zip [1 ..< Suc (length questions)] questions)"

definition scrape_questions_main_for :: "string list \<Rightarrow> network \<Rightarrow> set_order \<Rightarrow> string" where
  \<comment> \<open>\<open>main\<close> with its list of companies as a parameter; the result is the file written.\<close>
  "scrape_questions_main_for cs net ord =
     join newline (concat (map (\<lambda>company. company_lines company (search_questions net ord company)) cs))"

definition scrape_questions_main :: "network \<Rightarrow> set_order \<Rightarrow> string" where
  \<comment> \<open>\<open>main\<close> of scrape\_questions.py\<close>
  "scrape_questions_main = scrape_questions_main_for companies"

section \<open>enhanced\_scraper.py\<close>

definition search_queries :: "string \<Rightarrow> string list" where
  "search_queries company =
     [company @ '' system design interview questions'',
      company @ '' senior software engineer interview system design'',
      company @ '' L5 L6 system design round'',
      company @ '' staff engineer system design interview'',
      company @ '' principal engineer interview experience'',
      ''site:leetcode.com '' @ company @ '' system design'',
      ''site:reddit.com '' @ company @ '' interview system design'',
      ''site:glassdoor.com '' @ company @ '' system design questions'',
      ''site:github.com '' @ company @ '' system design interview'',
      company @ '' onsite interview system design round'']"

definition query_titles :: "network \<Rightarrow> string \<Rightarrow> string list" where
  \<comment> \<open>The titles one round of the loop over \<open>search_queries\<close> adds to \<open>all_questions\<close>.\<close>
  "query_titles net query =
     (case net DuckDuckGo query of
        Raises \<Rightarrow> []
      | Reply status_code content \<Rightarrow>
          if status_code = 200
          then filter (has_keyword [''design'', ''system'', ''interview'', ''experience''])
                 (take 3 (result_anchors content))
          else [])"

definition search_comprehensive :: "network \<Rightarrow> set_order \<Rightarrow> string \<Rightarrow> string list" where
  \<comment> \<open>\<open>all_questions\<close> is a set from the start; the titles are added in the order of the loop.\<close>
  "search_comprehensive net ord company =
     ord (concat (map (query_titles net) (search_queries company)))"






section \<open>scrape\_system\_design\_questions.py\<close>

text \<open>
  The three search methods return the list \<open>questions\<close> when the status is 200 and the
  empty list when an exception is caught. On any other status the method reaches its end
  with no \<open>return\<close>: the value is Python's \<open>None\<close>, here \<open>None\<close>.
\<close>

definition search_leetcode_discuss :: "network \<Rightarrow> string \<Rightarrow> string list option" where
  "search_leetcode_discuss net company =
     (case net LeetCode (company @ '' system design interview'') of
        Raises \<Rightarrow> Some []
      | Reply status_code content \<Rightarrow>
          if status_code = 200
          then Some (filter (has_keyword [''system design'', ''design'', ''architecture''])
                       (List.map_filter id (take 5 (topic_anchors content))))
          else None)"

definition search_glassdoor_alternative :: "network \<Rightarrow> string \<Rightarrow> string list option" where
  "search_glassdoor_alternative net company =
     (case net DuckDuckGo (''site:reddit.com '' @ company @ '' system design interview questions'') of
        Raises \<Rightarrow> Some []
      | Reply status_code content \<Rightarrow>
          if status_code = 200
          then Some (filter (\<lambda>title. sublist ''system design'' (lower title))
                       (take 3 (result_anchors content)))
          else None)"

definition repo_titles :: "repo \<Rightarrow> string list" where
  \<comment> \<open>One round of the loop over the repositories: \<open>description\<close> is \<open>None\<close> or a string,
      and an empty string is false as well.\<close>
  "repo_titles r =
     (case repo_description r of
        None \<Rightarrow> []
      | Some description \<Rightarrow>
          if description \<noteq> [] \<and> sublist ''system design'' (lower description)
          then [repo_name r @ '': '' @ description]
          else [])"

definition search_github_repos :: "network \<Rightarrow> string \<Rightarrow> string list option" where
  "search_github_repos net company =
     (case net GitHub (company @ '' system design interview questions'') of
        Raises \<Rightarrow> Some []
      | Reply status_code content \<Rightarrow>
          if status_code = 200
          then (case json_items content of
                  None \<Rightarrow> Some []
                | Some items \<Rightarrow> Some (concat (map repo_titles (take 3 items))))
          else None)"

definition extract_common_questions :: "(string \<times> string list) list" where
  "extract_common_questions =
    [(''Atlassian'',
       [''Design a collaborative document editing system like Confluence'',
        ''Design a project management system like Jira'',
        ''Design a real-time chat system for teams'',
        ''Design a file sharing and collaboration platform'',
        ''Design a notification system for team updates'']),
     (''PayPal'',
       [''Design a payment processing system'',
        ''Design a fraud detection system'',
        ''Design a wallet system for digital payments'',
        ''Design a money transfer system'',
        ''Design a merchant payment gateway'']),
     (''Mastercard'',
       [''Design a credit card transaction processing system'',
        ''Design a real-time fraud detection system'',
        ''Design a global payment network'',
        ''Design a loyalty points system'',
        ''Design a merchant acquiring system''])]"

datatype exn = TypeError

fun extend :: "string list \<Rightarrow> string list option \<Rightarrow> exn + string list" where
  \<comment> \<open>\<open>all_questions.extend(ys)\<close>: \<open>None\<close> is not iterable.\<close>
  "extend xs None = Inl TypeError"
| "extend xs (Some ys) = Inr (xs @ ys)"

type_synonym results = "(string \<times> string list) list"

definition scrape_company_questions_with ::
  "(string \<times> string list) list \<Rightarrow> network \<Rightarrow> set_order \<Rightarrow> string \<Rightarrow> results
     \<Rightarrow> exn + (string list \<times> results)" where
  \<comment> \<open>\<open>scrape_company_questions\<close>, with the table that \<open>extract_common_questions\<close> returns as
      a parameter. \<open>self.results\<close> is passed in and returned; an exception leaves it as it was.\<close>
  "scrape_company_questions_with common_questions net ord company results =
     (case extend [] (search_leetcode_discuss net company) of
        Inl e \<Rightarrow> Inl e
      | Inr all_questions \<Rightarrow>
     (case extend all_questions (search_glassdoor_alternative net company) of
        Inl e \<Rightarrow> Inl e
      | Inr all_questions \<Rightarrow>
     (case extend all_questions (search_github_repos net company) of
        Inl e \<Rightarrow> Inl e
      | Inr all_questions \<Rightarrow>
          let all_questions = (case map_of common_questions company of
                                 Some common \<Rightarrow> all_questions @ common
                               | None \<Rightarrow> all_questions);
              unique_questions = ord all_questions;
              cleaned_questions = filter (\<lambda>q. length q > 10 \<and> length q < 200) unique_questions
          in Inr (cleaned_questions, AList.update company cleaned_questions results))))"

definition scrape_company_questions ::
  "network \<Rightarrow> set_order \<Rightarrow> string \<Rightarrow> results \<Rightarrow> exn + (string list \<times> results)" where
  "scrape_company_questions = scrape_company_questions_with extract_common_questions"

fun main_loop :: "network \<Rightarrow> set_order \<Rightarrow> string list \<Rightarrow> results \<Rightarrow> results" where
  \<comment> \<open>The loop of \<open>main\<close>: an exception of one company is caught and printed.\<close>
  "main_loop net ord [] results = results"
| "main_loop net ord (company # cs) results =
     (case scrape_company_questions net ord company results of
        Inl e \<Rightarrow> main_loop net ord cs results
      | Inr (questions, results') \<Rightarrow> main_loop net ord cs results')"

datatype json = JString string | JArray "json list" | JObject "(string \<times> json) list"

definition save_results :: "results \<Rightarrow> json" where
  \<comment> \<open>The document \<open>json.dump\<close> writes for \<open>self.results\<close>.\<close>
  "save_results results = JObject (map (\<lambda>(company, questions). (company, JArray (map JString questions))) results)"

definition system_design_main :: "network \<Rightarrow> set_order \<Rightarrow> results \<times> json" where
  \<comment> \<open>\<open>main\<close> of scrape\_system\_design\_questions.py: \<open>scraper.results\<close> at the end, and the
      document saved.\<close>
  "system_design_main net ord =
     (let results = main_loop net ord companies [] in (results, save_results results))"

section \<open>Notions used in the statements\<close>

text \<open>
  The fallback list of a company in a table of canned questions: the entry of the table, and
  the empty list for a company the table does not have.
\<close>

definition fallback :: "(string \<times> string list) list \<Rightarrow> string \<Rightarrow> string list" where
  "fallback table company = (case map_of table company of Some qs \<Rightarrow> qs | None \<Rightarrow> [])"

text \<open>
  The titles \<open>scrape_company_questions\<close> has gathered from its three sources when it reaches
  the fallback table, or the exception that stopped it before.
\<close>

definition harvested :: "network \<Rightarrow> string \<Rightarrow> exn + string list" where
  "harvested net company =
     (case extend [] (search_leetcode_discuss net company) of
        Inl e \<Rightarrow> Inl e
      | Inr all_questions \<Rightarrow>
     (case extend all_questions (search_glassdoor_alternative net company) of
        Inl e \<Rightarrow> Inl e
      | Inr all_questions \<Rightarrow> extend all_questions (search_github_repos net company)))"

text \<open>What \<open>scrape_company_questions\<close> returns for a company, the state left out.\<close>

definition company_result :: "network \<Rightarrow> set_order \<Rightarrow> string \<Rightarrow> exn + string list" where
  "company_result net ord company =
     (case scrape_company_questions net ord company [] of
        Inl e \<Rightarrow> Inl e
      | Inr (questions, results) \<Rightarrow> Inr questions)"

fun json_keys :: "json \<Rightarrow> string list" where
  "json_keys (JObject members) = map fst members"
| "json_keys (JArray xs) = []"
| "json_keys (JString s) = []"

section \<open>Sample runs\<close>

definition sample_body :: body where
  "sample_body =
     \<lparr>result_anchors =
        [''Atlassian System Design Interview'', ''Unrelated Topic'',
         ''Atlassian System Design Interview''],
      topic_anchors =
        [None, Some ''Design of a rate limiter'', Some ''Salary thread'', Some ''API design''],
      json_items =
        Some [\<lparr>repo_name = ''primer'', repo_description = Some ''A System Design primer''\<rparr>,
              \<lparr>repo_name = ''dotfiles'', repo_description = None\<rparr>]\<rparr>"

definition sample_net :: network where
  \<comment> \<open>Every request is answered with status 200 and the sample content.\<close>
  "sample_net e q = Reply 200 sample_body"

definition failing_net :: network where
  \<comment> \<open>Every request raises.\<close>
  "failing_net e q = Raises"

definition refusing_net :: network where
  \<comment> \<open>As \<open>sample_net\<close>, but LeetCode answers the search for PayPal with status 404.\<close>
  "refusing_net e q =
     (if e = LeetCode \<and> q = ''PayPal system design interview''
      then Reply 404 sample_body else Reply 200 sample_body)"

definition reversed_order :: set_order where
  \<comment> \<open>An iteration order: the elements in the reverse order of their first insertion.\<close>
  "reversed_order xs = rev (remdups xs)"

definition short_table :: "(string \<times> string list) list" where
  \<comment> \<open>A table with an entry of nine characters.\<close>
  "short_table = [(''Atlassian'', [''Too short'', ''Design a notification system for team updates''])]"

definition rate_limited_net :: network where
  \<comment> \<open>As \<open>sample_net\<close>, but GitHub answers every search with status 403.\<close>
  "rate_limited_net e q = (if e = GitHub then Reply 403 sample_body else Reply 200 sample_body)"


section \<open>Basic facts\<close>

lemma set_iteration_distinct: "set_iteration ord \<Longrightarrow> distinct (ord xs)"
  by (simp add: set_iteration_def)

lemma set_iteration_set: "set_iteration ord \<Longrightarrow> set (ord xs) = set xs"
  by (simp add: set_iteration_def)

lemma set_iteration_remdups: "set_iteration remdups"
  by (simp add: set_iteration_def)

lemma set_search_questions:
  "set_iteration ord \<Longrightarrow>
   set (search_questions net ord company) =
     set (search_questions_found net company) \<union> set (fallback known_questions company)"
  by (simp add: search_questions_def fallback_def set_iteration_set Let_def split: option.splits)

lemma search_questions_found_keyword:
  "t \<in> set (search_questions_found net company) \<Longrightarrow> has_keyword [''design'', ''system'', ''interview''] t"
  by (auto simp: search_questions_found_def split: outcome.splits if_splits)

lemma query_titles_keyword:
  "t \<in> set (query_titles net query) \<Longrightarrow> has_keyword [''design'', ''system'', ''interview'', ''experience''] t"
  by (auto simp: query_titles_def split: outcome.splits if_splits)

lemma search_leetcode_discuss_keyword:
  "search_leetcode_discuss net company = Some ts \<Longrightarrow> t \<in> set ts \<Longrightarrow>
   has_keyword [''system design'', ''design'', ''architecture''] t"
  by (auto simp: search_leetcode_discuss_def split: outcome.splits if_splits)

lemma search_glassdoor_alternative_keyword:
  "search_glassdoor_alternative net company = Some ts \<Longrightarrow> t \<in> set ts \<Longrightarrow>
   has_keyword [''system design''] t"
  by (auto simp: search_glassdoor_alternative_def has_keyword_def split: outcome.splits if_splits)

lemma sublist_append_left: "sublist w ys \<Longrightarrow> sublist w (xs @ ys)"
proof -
  assume "sublist w ys"
  then obtain ps ss where "ys = ps @ w @ ss" by (auto simp: sublist_def)
  then have "xs @ ys = (xs @ ps) @ w @ ss" by simp
  then show ?thesis unfolding sublist_def by blast
qed

lemma sublist_lower_append:
  "sublist w (lower d) \<Longrightarrow> sublist w (lower (n @ d))"
  by (simp add: lower_def sublist_append_left)

lemma repo_titles_keyword:
  "t \<in> set (repo_titles r) \<Longrightarrow> has_keyword [''system design''] t"
proof (cases "repo_description r")
  case None
  assume "t \<in> set (repo_titles r)"
  with None show ?thesis by (simp add: repo_titles_def)
next
  case (Some d)
  assume "t \<in> set (repo_titles r)"
  with Some have d: "sublist ''system design'' (lower d)" and t_eq: "t = (repo_name r @ '': '') @ d"
    by (auto simp: repo_titles_def split: if_splits)
  from d have "sublist ''system design'' (lower ((repo_name r @ '': '') @ d))"
    by (rule sublist_lower_append)
  with t_eq show ?thesis by (simp add: has_keyword_def)
qed

lemma search_github_repos_keyword:
  "search_github_repos net company = Some ts \<Longrightarrow> t \<in> set ts \<Longrightarrow>
   has_keyword [''system design''] t"
  by (auto simp: search_github_repos_def split: outcome.splits if_splits option.splits
      dest: repo_titles_keyword)

lemma scrape_company_questions_with_eq:
  "scrape_company_questions_with table net ord company results =
     (case harvested net company of
        Inl e \<Rightarrow> Inl e
      | Inr found \<Rightarrow>
          let cleaned = filter (\<lambda>q. length q > 10 \<and> length q < 200) (ord (found @ fallback table company))
          in Inr (cleaned, AList.update company cleaned results))"
  by (simp add: scrape_company_questions_with_def harvested_def fallback_def Let_def
      split: sum.splits option.splits)

lemma harvested_Inr_iff:
  "harvested net company = Inr found \<longleftrightarrow>
     (\<exists>a b c. search_leetcode_discuss net company = Some a \<and>
              search_glassdoor_alternative net company = Some b \<and>
              search_github_repos net company = Some c \<and> found = a @ b @ c)"
  by (cases "search_leetcode_discuss net company"; cases "search_glassdoor_alternative net company";
      cases "search_github_repos net company") (auto simp: harvested_def)

lemma harvested_Inl_iff:
  "harvested net company = Inl e \<longleftrightarrow>
     (search_leetcode_discuss net company = None \<or>
      search_glassdoor_alternative net company = None \<or>
      search_github_repos net company = None)"
  by (cases "search_leetcode_discuss net company"; cases "search_glassdoor_alternative net company";
      cases "search_github_repos net company"; cases e) (auto simp: harvested_def)

lemma scrape_company_questions_eq:
  "scrape_company_questions net ord company results =
     (case harvested net company of
        Inl e \<Rightarrow> Inl e
      | Inr found \<Rightarrow>
          let cleaned = filter (\<lambda>q. length q > 10 \<and> length q < 200)
                          (ord (found @ fallback extract_common_questions company))
          in Inr (cleaned, AList.update company cleaned results))"
  by (simp add: scrape_company_questions_def scrape_company_questions_with_eq)

lemma scrape_company_questions_result:
  "scrape_company_questions net ord company results =
     (case company_result net ord company of
        Inl e \<Rightarrow> Inl e
      | Inr questions \<Rightarrow> Inr (questions, AList.update company questions results))"
  by (simp add: company_result_def scrape_company_questions_eq Let_def split: sum.splits)

lemma map_of_main_loop:
  "map_of (main_loop net ord cs results) c =
     (if c \<in> set cs
      then (case company_result net ord c of
              Inl e \<Rightarrow> map_of results c
            | Inr questions \<Rightarrow> Some questions)
      else map_of results c)"
proof (induction cs arbitrary: results)
  case Nil
  then show ?case by simp
next
  case (Cons company cs)
  show ?case
  proof (cases "company_result net ord company")
    case (Inl e)
    then show ?thesis
      using Cons.IH [of results]
      by (cases e) (auto simp: scrape_company_questions_result split: sum.splits)
  next
    case (Inr questions)
    then show ?thesis
      using Cons.IH [of "AList.update company questions results"]
      by (auto simp: scrape_company_questions_result update_conv' split: sum.splits)
  qed
qed

lemma company_result_eq:
  "company_result net ord company =
     (case harvested net company of
        Inl e \<Rightarrow> Inl e
      | Inr found \<Rightarrow>
          Inr (filter (\<lambda>q. length q > 10 \<and> length q < 200)
                 (ord (found @ fallback extract_common_questions company))))"
  by (simp add: company_result_def scrape_company_questions_eq Let_def split: sum.splits)

lemma company_result_main:
  "map_of (fst (system_design_main net ord)) c =
     (if c \<in> set companies
      then (case company_result net ord c of Inl e \<Rightarrow> None | Inr questions \<Rightarrow> Some questions)
      else None)"
  by (simp add: system_design_main_def Let_def map_of_main_loop split: sum.splits)

lemma sample_search_questions:
  "search_questions sample_net remdups ''Atlassian'' =
     [''Atlassian System Design Interview'',
      ''Design a collaborative document editing system like Confluence'',
      ''Design a project management tool like Jira'',
      ''Design a real-time chat system for teams'',
      ''Design a file sharing platform'',
      ''Design a notification system'']"
  by code_simp

lemma sample_search_comprehensive:
  "search_comprehensive sample_net remdups ''Atlassian'' = [''Atlassian System Design Interview'']"
  by code_simp

lemma sample_company_result:
  "company_result sample_net remdups ''Atlassian'' =
     Inr [''Design of a rate limiter'', ''Atlassian System Design Interview'',
          ''primer: A System Design primer'',
          ''Design a collaborative document editing system like Confluence'',
          ''Design a project management system like Jira'',
          ''Design a real-time chat system for teams'',
          ''Design a file sharing and collaboration platform'',
          ''Design a notification system for team updates'']"
  by code_simp

lemma sample_harvested:
  "harvested sample_net ''Atlassian'' =
     Inr [''Design of a rate limiter'', ''API design'', ''Atlassian System Design Interview'',
          ''Atlassian System Design Interview'', ''primer: A System Design primer'']"
  by code_simp

lemma company_result_Inr:
  "company_result net ord company = Inr questions \<longleftrightarrow>
     (\<exists>found. harvested net company = Inr found \<and>
        questions = filter (\<lambda>q. length q > 10 \<and> length q < 200)
                      (ord (found @ fallback extract_common_questions company)))"
  by (auto simp: company_result_eq split: sum.splits)

lemma scrape_company_questions_Inr:
  "scrape_company_questions net ord company results = Inr (questions, results') \<longleftrightarrow>
     company_result net ord company = Inr questions \<and>
     results' = AList.update company questions results"
  by (auto simp: scrape_company_questions_result split: sum.splits)

lemma harvested_keyword:
  assumes "harvested net company = Inr found" "t \<in> set found"
  shows "has_keyword [''system design'', ''design'', ''architecture''] t \<or>
         has_keyword [''system design''] t"
proof -
  from assms(1) obtain a b c where
    a: "search_leetcode_discuss net company = Some a" and
    b: "search_glassdoor_alternative net company = Some b" and
    c: "search_github_repos net company = Some c" and
    found: "found = a @ b @ c"
    by (auto simp: harvested_Inr_iff)
  from assms(2) found consider "t \<in> set a" | "t \<in> set b" | "t \<in> set c" by auto
  then show ?thesis
  proof cases
    case 1
    with a show ?thesis by (simp add: search_leetcode_discuss_keyword)
  next
    case 2
    with b show ?thesis by (simp add: search_glassdoor_alternative_keyword)
  next
    case 3
    with c show ?thesis by (simp add: search_github_repos_keyword)
  qed
qed

lemma sample_leetcode:
  "search_leetcode_discuss sample_net ''Atlassian'' = Some [''Design of a rate limiter'', ''API design'']"
  by code_simp

lemma sample_keyword:
  "has_keyword [''design'', ''system'', ''interview''] ''Atlassian System Design Interview''"
  by code_simp

lemma common_questions_bounds:
  "q \<in> set (fallback extract_common_questions company) \<Longrightarrow> 10 < length q \<and> length q < 200"
  by (auto simp: fallback_def extract_common_questions_def split: if_splits)

lemma harvested_failing:
  assumes "net LeetCode (company @ '' system design interview'') = Raises"
    and "net DuckDuckGo (''site:reddit.com '' @ company @ '' system design interview questions'') = Raises"
    and "net GitHub (company @ '' system design interview questions'') = Raises"
  shows "harvested net company = Inr []"
  using assms
  by (simp add: harvested_def search_leetcode_discuss_def search_glassdoor_alternative_def
      search_github_repos_def)

lemma sample_short_table:
  "scrape_company_questions_with short_table failing_net remdups ''Atlassian'' [] =
     Inr ([''Design a notification system for team updates''],
          [(''Atlassian'', [''Design a notification system for team updates''])])"
  by code_simp

lemma json_keys_save_results: "json_keys (save_results results) = map fst results"
  by (simp add: save_results_def comp_def case_prod_unfold)

lemma key_absent_iff:
  "company \<notin> set (json_keys (snd (system_design_main net ord))) \<longleftrightarrow>
   map_of (fst (system_design_main net ord)) company = None"
  by (simp add: system_design_main_def Let_def json_keys_save_results map_of_eq_None_iff)

lemma company_result_Inl:
  "company_result net ord company = Inl e \<longleftrightarrow>
     (search_leetcode_discuss net company = None \<or>
      search_glassdoor_alternative net company = None \<or>
      search_github_repos net company = None)"
proof -
  have "company_result net ord company = Inl e \<longleftrightarrow> harvested net company = Inl e"
    by (simp add: company_result_eq split: sum.splits)
  then show ?thesis by (simp add: harvested_Inl_iff)
qed

lemma scrape_company_questions_Inl:
  "scrape_company_questions net ord company results = Inl e \<longleftrightarrow>
     company_result net ord company = Inl e"
  by (auto simp: scrape_company_questions_result split: sum.splits)

lemma non_200_text_variants:
  assumes "st \<noteq> 200"
  shows "net DuckDuckGo
           (company @ '' system design interview questions site:reddit.com OR site:leetcode.com'')
           = Reply st b \<Longrightarrow> search_questions_found net company = []"
    and "net DuckDuckGo query = Reply st b \<Longrightarrow> query_titles net query = []"
  using assms by (simp_all add: search_questions_found_def query_titles_def)

lemma fallback_kept_text:
  "set_iteration ord \<Longrightarrow>
   set (fallback known_questions company) \<subseteq> set (search_questions net ord company)"
  by (simp add: set_search_questions)

lemma fallback_kept_json:
  assumes "set_iteration ord"
    and "scrape_company_questions net ord company results = Inr (questions, results')"
  shows "set (fallback extract_common_questions company) \<subseteq> set questions"
proof -
  from assms(2) obtain found where
    "questions = filter (\<lambda>q. length q > 10 \<and> length q < 200)
                      (ord (found @ fallback extract_common_questions company))"
    by (auto simp: scrape_company_questions_Inr company_result_Inr)
  then show ?thesis
    using common_questions_bounds by (auto simp: set_iteration_set [OF assms(1)])
qed



lemma known_questions_five:
  assumes "company \<in> set companies"
  shows "length (fallback known_questions company) = 5"
    and "distinct (fallback known_questions company)"
  using assms by (auto simp: companies_def fallback_def known_questions_def)

lemma str_nat_to_5:
  "str_nat (Suc 0) = ''1''" "str_nat 2 = ''2''" "str_nat 3 = ''3''" "str_nat 4 = ''4''" "str_nat 5 = ''5''"
  by code_simp+

lemma company_lines_five:
  "company_lines company [q1, q2, q3, q4, q5] =
     [newline @ replicate 60 CHR ''='',
      upper company @ '' SYSTEM DESIGN QUESTIONS'',
      replicate 60 CHR ''='',
      ''1. '' @ q1, ''2. '' @ q2, ''3. '' @ q3, ''4. '' @ q4, ''5. '' @ q5]"
proof -
  have z: "zip [1 ..< Suc (length [q1, q2, q3, q4, q5])] [q1, q2, q3, q4, q5] =
      [(1, q1), (2, q2), (3, q3), (4, q4), (5, q5)]"
    by (simp add: upt_rec)
  show ?thesis
    unfolding company_lines_def z by (simp add: str_nat_to_5)
qed

lemma length_five:
  assumes "length xs = 5"
  obtains q1 q2 q3 q4 q5 where "xs = [q1, q2, q3, q4, q5]"
proof -
  from assms have "length xs = Suc (Suc (Suc (Suc (Suc 0))))" by simp
  then show ?thesis using that by (auto simp: length_Suc_conv)
qed

lemma failing_reversed_file:
  "scrape_questions_main_for [''Atlassian''] failing_net reversed_order =
     join newline
       [newline @ replicate 60 CHR ''='',
        ''ATLASSIAN SYSTEM DESIGN QUESTIONS'',
        replicate 60 CHR ''='',
        ''1. Design a notification system'',
        ''2. Design a file sharing platform'',
        ''3. Design a real-time chat system for teams'',
        ''4. Design a project management tool like Jira'',
        ''5. Design a collaborative document editing system like Confluence'']"
  by code_simp

lemma fallback_order_file:
  "join newline (company_lines ''Atlassian'' (fallback known_questions ''Atlassian'')) =
     join newline
       [newline @ replicate 60 CHR ''='',
        ''ATLASSIAN SYSTEM DESIGN QUESTIONS'',
        replicate 60 CHR ''='',
        ''1. Design a collaborative document editing system like Confluence'',
        ''2. Design a project management tool like Jira'',
        ''3. Design a real-time chat system for teams'',
        ''4. Design a file sharing platform'',
        ''5. Design a notification system'']"
  by code_simp

lemma set_iteration_reversed_order: "set_iteration reversed_order"
  by (simp add: set_iteration_def reversed_order_def)

section \<open>The claims\<close>

text \<open>
  Claim C7. Whatever the network answers, the collection of titles a variant produces for a
  company has no string twice: the list \<open>search_questions\<close> returns (text file), the list
  \<open>search_comprehensive\<close> returns (additional questions), the list
  \<open>scrape_company_questions\<close> returns and every list in the results saved as JSON. The
  lists come out of a Python set, filtered afterwards in the JSON variant.
\<close>

theorem final_collections_distinct:
  "set_iteration ord \<Longrightarrow>
     distinct (search_questions net ord company) \<and>
     distinct (search_comprehensive net ord company) \<and>
     (\<forall>questions results'.
        scrape_company_questions net ord company results = Inr (questions, results')
        \<longrightarrow> distinct questions) \<and>
     (\<forall>questions.
        map_of (fst (system_design_main net ord)) company = Some questions
        \<longrightarrow> distinct questions)"
proof -
  assume ord: "set_iteration ord"
  have 1: "distinct (search_questions net ord company)"
    by (simp add: search_questions_def Let_def set_iteration_distinct [OF ord])
  have 2: "distinct (search_comprehensive net ord company)"
    by (simp add: search_comprehensive_def set_iteration_distinct [OF ord])
  have r: "distinct questions" if "company_result net ord company = Inr questions" for questions
    using that
    by (auto simp: company_result_eq set_iteration_distinct [OF ord] split: sum.splits)
  have 3: "distinct questions"
    if "scrape_company_questions net ord company results = Inr (questions, results')"
    for questions results'
    using that r by (auto simp: scrape_company_questions_result split: sum.splits)
  have 4: "distinct questions"
    if "map_of (fst (system_design_main net ord)) company = Some questions" for questions
    using that r by (auto simp: company_result_main split: if_splits sum.splits)
  from 1 2 3 4 show ?thesis by blast
qed

theorem final_collections_distinct_witness:
  "set_iteration remdups \<and>
   search_questions sample_net remdups ''Atlassian'' =
     [''Atlassian System Design Interview'',
      ''Design a collaborative document editing system like Confluence'',
      ''Design a project management tool like Jira'',
      ''Design a real-time chat system for teams'',
      ''Design a file sharing platform'',
      ''Design a notification system''] \<and>
   distinct (search_questions sample_net remdups ''Atlassian'') \<and>
   distinct (search_comprehensive sample_net remdups ''Atlassian'')"
  using final_collections_distinct [OF set_iteration_remdups, of sample_net "''Atlassian''" "[]"]
    set_iteration_remdups sample_search_questions
  by simp

text \<open>
  Claim C5. Every title of a final collection that is not an entry of the company's fallback
  list contains, in lower case, a keyword of the place that kept it: \<open>design\<close>,
  \<open>system\<close> or \<open>interview\<close> in \<open>search_questions\<close>; these or \<open>experience\<close> in
  \<open>search_comprehensive\<close>; \<open>system design\<close>, \<open>design\<close> or \<open>architecture\<close> in
  \<open>search_leetcode_discuss\<close>; \<open>system design\<close> in \<open>search_glassdoor_alternative\<close> and in
  \<open>search_github_repos\<close> (which tests the description, the end of the title it builds).
\<close>

theorem kept_titles_have_keyword:
  "set_iteration ord \<Longrightarrow>
     (\<forall>t \<in> set (search_questions net ord company).
        t \<in> set (fallback known_questions company) \<or>
        has_keyword [''design'', ''system'', ''interview''] t) \<and>
     (\<forall>t \<in> set (search_comprehensive net ord company).
        has_keyword [''design'', ''system'', ''interview'', ''experience''] t) \<and>
     (\<forall>ts. search_leetcode_discuss net company = Some ts \<longrightarrow>
        (\<forall>t \<in> set ts. has_keyword [''system design'', ''design'', ''architecture''] t)) \<and>
     (\<forall>ts. search_glassdoor_alternative net company = Some ts \<longrightarrow>
        (\<forall>t \<in> set ts. has_keyword [''system design''] t)) \<and>
     (\<forall>ts. search_github_repos net company = Some ts \<longrightarrow>
        (\<forall>t \<in> set ts. has_keyword [''system design''] t)) \<and>
     (\<forall>questions results'.
        scrape_company_questions net ord company results = Inr (questions, results') \<longrightarrow>
        (\<forall>t \<in> set questions.
           t \<in> set (fallback extract_common_questions company) \<or>
           has_keyword [''system design'', ''design'', ''architecture''] t \<or>
           has_keyword [''system design''] t))"
proof -
  assume ord: "set_iteration ord"
  have 1: "\<forall>t \<in> set (search_questions net ord company).
        t \<in> set (fallback known_questions company) \<or>
        has_keyword [''design'', ''system'', ''interview''] t"
    using search_questions_found_keyword by (auto simp: set_search_questions [OF ord])
  have 2: "\<forall>t \<in> set (search_comprehensive net ord company).
        has_keyword [''design'', ''system'', ''interview'', ''experience''] t"
    using query_titles_keyword
    by (auto simp: search_comprehensive_def set_iteration_set [OF ord])
  have 3: "\<forall>ts. search_leetcode_discuss net company = Some ts \<longrightarrow>
        (\<forall>t \<in> set ts. has_keyword [''system design'', ''design'', ''architecture''] t)"
    using search_leetcode_discuss_keyword by blast
  have 4: "\<forall>ts. search_glassdoor_alternative net company = Some ts \<longrightarrow>
        (\<forall>t \<in> set ts. has_keyword [''system design''] t)"
    using search_glassdoor_alternative_keyword by blast
  have 5: "\<forall>ts. search_github_repos net company = Some ts \<longrightarrow>
        (\<forall>t \<in> set ts. has_keyword [''system design''] t)"
    using search_github_repos_keyword by blast
  have 6: "\<forall>questions results'.
        scrape_company_questions net ord company results = Inr (questions, results') \<longrightarrow>
        (\<forall>t \<in> set questions.
           t \<in> set (fallback extract_common_questions company) \<or>
           has_keyword [''system design'', ''design'', ''architecture''] t \<or>
           has_keyword [''system design''] t)"
  proof (intro allI impI ballI)
    fix questions results' t
    assume "scrape_company_questions net ord company results = Inr (questions, results')"
      and t: "t \<in> set questions"
    then obtain found where found: "harvested net company = Inr found"
      and q: "questions = filter (\<lambda>q. length q > 10 \<and> length q < 200)
                      (ord (found @ fallback extract_common_questions company))"
      by (auto simp: scrape_company_questions_Inr company_result_Inr)
    from t q have "t \<in> set found \<or> t \<in> set (fallback extract_common_questions company)"
      by (auto simp: set_iteration_set [OF ord])
    with harvested_keyword [OF found]
    show "t \<in> set (fallback extract_common_questions company) \<or>
           has_keyword [''system design'', ''design'', ''architecture''] t \<or>
           has_keyword [''system design''] t"
      by blast
  qed
  from 1 2 3 4 5 6 show ?thesis by blast
qed

theorem kept_titles_have_keyword_witness:
  "set_iteration remdups \<and>
   ''Atlassian System Design Interview'' \<in> set (search_questions sample_net remdups ''Atlassian'') \<and>
   ''Atlassian System Design Interview'' \<notin> set (fallback known_questions ''Atlassian'') \<and>
   has_keyword [''design'', ''system'', ''interview''] ''Atlassian System Design Interview'' \<and>
   ''Unrelated Topic'' \<notin> set (search_questions sample_net remdups ''Atlassian'')"
proof -
  have mem: "''Atlassian System Design Interview'' \<in> set (search_questions sample_net remdups ''Atlassian'')"
    by (simp add: sample_search_questions)
  have nofb: "''Atlassian System Design Interview'' \<notin> set (fallback known_questions ''Atlassian'')"
    by (simp add: fallback_def known_questions_def)
  have "has_keyword [''design'', ''system'', ''interview''] ''Atlassian System Design Interview''"
    using kept_titles_have_keyword [OF set_iteration_remdups, of sample_net "''Atlassian''" "[]"]
      mem nofb by blast
  moreover have "''Unrelated Topic'' \<notin> set (search_questions sample_net remdups ''Atlassian'')"
    by (simp add: sample_search_questions)
  ultimately show ?thesis using mem nofb set_iteration_remdups by blast
qed

text \<open>
  Claim C6. In the JSON variant a title gathered from the three sources is in the list
  \<open>scrape_company_questions\<close> returns exactly when it has more than 10 and fewer than 200
  characters; so every gathered title of the final list is within these bounds.
\<close>

theorem harvested_titles_length_bounds:
  assumes "set_iteration ord"
    and "scrape_company_questions net ord company results = Inr (questions, results')"
    and "harvested net company = Inr found"
    and "t \<in> set found"
  shows "t \<in> set questions \<longleftrightarrow> 10 < length t \<and> length t < 200"
proof -
  from assms(2,3) have "questions = filter (\<lambda>q. length q > 10 \<and> length q < 200)
                      (ord (found @ fallback extract_common_questions company))"
    by (auto simp: scrape_company_questions_Inr company_result_Inr)
  with assms(4) show ?thesis by (auto simp: set_iteration_set [OF assms(1)])
qed

theorem harvested_titles_length_bounds_witness:
  "set_iteration remdups \<and>
   harvested sample_net ''Atlassian'' =
     Inr [''Design of a rate limiter'', ''API design'', ''Atlassian System Design Interview'',
          ''Atlassian System Design Interview'', ''primer: A System Design primer''] \<and>
   ''API design'' \<notin> set (projr (company_result sample_net remdups ''Atlassian'')) \<and>
   ''Design of a rate limiter'' \<in> set (projr (company_result sample_net remdups ''Atlassian'')) \<and>
   length ''API design'' = 10 \<and> length ''Design of a rate limiter'' = 24"
proof -
  let ?qs = "projr (company_result sample_net remdups ''Atlassian'')"
  have run: "scrape_company_questions sample_net remdups ''Atlassian'' [] =
      Inr (?qs, AList.update ''Atlassian'' ?qs [])"
    by (simp add: scrape_company_questions_result sample_company_result)
  have "''API design'' \<in> set ?qs \<longleftrightarrow> 10 < length ''API design'' \<and> length ''API design'' < 200"
    by (rule harvested_titles_length_bounds [OF set_iteration_remdups run sample_harvested]) simp
  moreover have "''Design of a rate limiter'' \<in> set ?qs \<longleftrightarrow>
      10 < length ''Design of a rate limiter'' \<and> length ''Design of a rate limiter'' < 200"
    by (rule harvested_titles_length_bounds [OF set_iteration_remdups run sample_harvested]) simp
  ultimately show ?thesis
    using set_iteration_remdups sample_harvested by simp
qed

text \<open>
  Claim C10. In the JSON variant the length filter runs on the list that already holds the
  fallback entries: every string of the list \<open>scrape_company_questions\<close> returns has more
  than 10 and fewer than 200 characters, the fallback entries as well. With any table in
  place of the one \<open>extract_common_questions\<close> returns, an entry of the company's fallback
  list outside these bounds is not in the list returned.
\<close>

theorem length_filter_after_fallback_merge:
  "(\<forall>questions results'.
      scrape_company_questions net ord company results = Inr (questions, results') \<longrightarrow>
      (\<forall>q \<in> set questions. 10 < length q \<and> length q < 200)) \<and>
   (\<forall>questions results'.
      scrape_company_questions_with table net ord company results = Inr (questions, results') \<longrightarrow>
      (\<forall>q \<in> set questions. 10 < length q \<and> length q < 200) \<and>
      (\<forall>q \<in> set (fallback table company).
         \<not> (10 < length q \<and> length q < 200) \<longrightarrow> q \<notin> set questions))"
proof -
  have with_table: "(\<forall>q \<in> set questions. 10 < length q \<and> length q < 200) \<and>
      (\<forall>q \<in> set (fallback tab company).
         \<not> (10 < length q \<and> length q < 200) \<longrightarrow> q \<notin> set questions)"
    if "scrape_company_questions_with tab net ord company results = Inr (questions, results')"
    for tab questions results'
    using that
    by (auto simp: scrape_company_questions_with_eq Let_def split: sum.splits)
  show ?thesis
    using with_table [of extract_common_questions] with_table [of table]
    unfolding scrape_company_questions_def by blast
qed

theorem length_filter_after_fallback_merge_witness:
  "fallback short_table ''Atlassian'' =
     [''Too short'', ''Design a notification system for team updates''] \<and>
   length ''Too short'' = 9 \<and>
   scrape_company_questions_with short_table failing_net remdups ''Atlassian'' [] =
     Inr ([''Design a notification system for team updates''],
          [(''Atlassian'', [''Design a notification system for team updates''])]) \<and>
   ''Too short'' \<notin>
     set (fst (projr (scrape_company_questions_with short_table failing_net remdups ''Atlassian'' [])))"
proof -
  let ?run = "scrape_company_questions_with short_table failing_net remdups ''Atlassian'' []"
  have fb: "fallback short_table ''Atlassian'' =
     [''Too short'', ''Design a notification system for team updates'']"
    by (simp add: fallback_def short_table_def)
  have run: "?run = Inr (fst (projr ?run), snd (projr ?run))"
    by (simp add: sample_short_table)
  have "\<forall>q \<in> set (fallback short_table ''Atlassian'').
         \<not> (10 < length q \<and> length q < 200) \<longrightarrow> q \<notin> set (fst (projr ?run))"
    using length_filter_after_fallback_merge
      [of failing_net remdups "''Atlassian''" "[]" short_table] run
    by blast
  then have "''Too short'' \<notin> set (fst (projr ?run))"
    by (simp add: fb)
  with fb sample_short_table show ?thesis by simp
qed

text \<open>
  Claim C4. When every request made for a company raises, the company's final collection
  has exactly the members of its fallback list (no member at all for a company without
  one): in \<open>search_questions\<close>, and in \<open>scrape_company_questions\<close>, which then returns
  normally. \<open>search_comprehensive\<close> has no fallback table and returns the empty list.
\<close>

theorem all_requests_raise:
  assumes "set_iteration ord"
  shows
   "(net DuckDuckGo
        (company @ '' system design interview questions site:reddit.com OR site:leetcode.com'')
       = Raises \<longrightarrow>
     set (search_questions net ord company) = set (fallback known_questions company)) \<and>
    ((\<forall>query \<in> set (search_queries company). net DuckDuckGo query = Raises) \<longrightarrow>
     search_comprehensive net ord company = []) \<and>
    (net LeetCode (company @ '' system design interview'') = Raises \<and>
     net DuckDuckGo (''site:reddit.com '' @ company @ '' system design interview questions'') = Raises \<and>
     net GitHub (company @ '' system design interview questions'') = Raises \<longrightarrow>
     (\<exists>questions.
        scrape_company_questions net ord company results =
          Inr (questions, AList.update company questions results) \<and>
        set questions = set (fallback extract_common_questions company)))"
proof -
  have ord_Nil: "ord [] = []"
    using set_iteration_set [OF assms, of "[]"] by simp
  have 1: "set (search_questions net ord company) = set (fallback known_questions company)"
    if "net DuckDuckGo
        (company @ '' system design interview questions site:reddit.com OR site:leetcode.com'')
       = Raises"
    using that by (simp add: set_search_questions [OF assms] search_questions_found_def)
  have 2: "search_comprehensive net ord company = []"
    if "\<forall>query \<in> set (search_queries company). net DuckDuckGo query = Raises"
  proof -
    from that have c: "concat (map (query_titles net) (search_queries company)) = []"
      by (simp add: query_titles_def)
    show ?thesis unfolding search_comprehensive_def c by (rule ord_Nil)
  qed
  have 3: "\<exists>questions.
        scrape_company_questions net ord company results =
          Inr (questions, AList.update company questions results) \<and>
        set questions = set (fallback extract_common_questions company)"
    if "net LeetCode (company @ '' system design interview'') = Raises \<and>
     net DuckDuckGo (''site:reddit.com '' @ company @ '' system design interview questions'') = Raises \<and>
     net GitHub (company @ '' system design interview questions'') = Raises"
  proof -
    from that have h: "harvested net company = Inr []"
      by (simp add: harvested_failing)
    let ?qs = "filter (\<lambda>q. length q > 10 \<and> length q < 200)
                 (ord (fallback extract_common_questions company))"
    have "scrape_company_questions net ord company results =
          Inr (?qs, AList.update company ?qs results)"
      by (simp add: scrape_company_questions_eq h Let_def)
    moreover have "set ?qs = set (fallback extract_common_questions company)"
      using common_questions_bounds by (auto simp: set_iteration_set [OF assms])
    ultimately show ?thesis by blast
  qed
  from 1 2 3 show ?thesis by blast
qed

theorem all_requests_raise_witness:
  "set_iteration remdups \<and>
   failing_net DuckDuckGo
     (''Atlassian'' @ '' system design interview questions site:reddit.com OR site:leetcode.com'')
     = Raises \<and>
   set (search_questions failing_net remdups ''Atlassian'') =
     set (fallback known_questions ''Atlassian'') \<and>
   search_comprehensive failing_net remdups ''Atlassian'' = [] \<and>
   (\<exists>questions.
      scrape_company_questions failing_net remdups ''Atlassian'' [] =
        Inr (questions, AList.update ''Atlassian'' questions []) \<and>
      set questions = set (fallback extract_common_questions ''Atlassian''))"
  using all_requests_raise [OF set_iteration_remdups, of failing_net "''Atlassian''" "[]"]
    set_iteration_remdups
  by (simp add: failing_net_def)

text \<open>
  Claim C3. In the JSON variant a search method whose response has a status other than 200
  (201 and 204 as well) returns \<open>None\<close>. When one of the three does,
  \<open>scrape_company_questions\<close> raises \<open>TypeError\<close> at the \<open>extend\<close>; the loop of \<open>main\<close>
  catches it and goes on with the results as they were, and at the end the company is no key
  of the results and no key of the JSON document saved.
\<close>

theorem non_200_status_drops_company:
  "(\<forall>st b. net LeetCode (company @ '' system design interview'') = Reply st b \<and> st \<noteq> 200
      \<longrightarrow> search_leetcode_discuss net company = None) \<and>
   (\<forall>st b. net DuckDuckGo (''site:reddit.com '' @ company @ '' system design interview questions'')
             = Reply st b \<and> st \<noteq> 200
      \<longrightarrow> search_glassdoor_alternative net company = None) \<and>
   (\<forall>st b. net GitHub (company @ '' system design interview questions'') = Reply st b \<and> st \<noteq> 200
      \<longrightarrow> search_github_repos net company = None) \<and>
   (search_leetcode_discuss net company = None \<or>
    search_glassdoor_alternative net company = None \<or>
    search_github_repos net company = None
      \<longrightarrow> scrape_company_questions net ord company results = Inl TypeError \<and>
          main_loop net ord (company # cs) results = main_loop net ord cs results \<and>
          map_of (fst (system_design_main net ord)) company = None \<and>
          company \<notin> set (json_keys (snd (system_design_main net ord))))"
proof -
  have 1: "\<forall>st b. net LeetCode (company @ '' system design interview'') = Reply st b \<and> st \<noteq> 200
      \<longrightarrow> search_leetcode_discuss net company = None"
    by (simp add: search_leetcode_discuss_def)
  have 2: "\<forall>st b. net DuckDuckGo (''site:reddit.com '' @ company @ '' system design interview questions'')
             = Reply st b \<and> st \<noteq> 200
      \<longrightarrow> search_glassdoor_alternative net company = None"
    by (simp add: search_glassdoor_alternative_def)
  have 3: "\<forall>st b. net GitHub (company @ '' system design interview questions'') = Reply st b \<and> st \<noteq> 200
      \<longrightarrow> search_github_repos net company = None"
    by (simp add: search_github_repos_def)
  have 4: "scrape_company_questions net ord company results = Inl TypeError \<and>
          main_loop net ord (company # cs) results = main_loop net ord cs results \<and>
          map_of (fst (system_design_main net ord)) company = None \<and>
          company \<notin> set (json_keys (snd (system_design_main net ord)))"
    if "search_leetcode_discuss net company = None \<or>
        search_glassdoor_alternative net company = None \<or>
        search_github_repos net company = None"
  proof -
    from that have r: "company_result net ord company = Inl TypeError"
      by (simp add: company_result_Inl)
    then have s: "scrape_company_questions net ord company results = Inl TypeError"
      by (simp add: scrape_company_questions_Inl)
    have m: "map_of (fst (system_design_main net ord)) company = None"
      by (simp add: company_result_main r)
    from s m show ?thesis by (simp add: key_absent_iff)
  qed
  from 1 2 3 4 show ?thesis by blast
qed

theorem non_200_status_drops_company_witness:
  "refusing_net LeetCode (''PayPal'' @ '' system design interview'') = Reply 404 sample_body \<and>
   (404 :: int) \<noteq> 200 \<and>
   search_leetcode_discuss refusing_net ''PayPal'' = None \<and>
   scrape_company_questions refusing_net remdups ''PayPal'' [] = Inl TypeError \<and>
   ''PayPal'' \<notin> set (json_keys (snd (system_design_main refusing_net remdups)))"
proof -
  have reply: "refusing_net LeetCode (''PayPal'' @ '' system design interview'') = Reply 404 sample_body"
    by (simp add: refusing_net_def)
  note inst = non_200_status_drops_company [of refusing_net "''PayPal''" remdups "[]" "[]"]
  from inst reply have none: "search_leetcode_discuss refusing_net ''PayPal'' = None"
    by simp
  with inst have "scrape_company_questions refusing_net remdups ''PayPal'' [] = Inl TypeError \<and>
      ''PayPal'' \<notin> set (json_keys (snd (system_design_main refusing_net remdups)))"
    by blast
  with reply none show ?thesis by simp
qed




text \<open>
  Claim C8, as amended. In the text variant, a run for one company of the list (each has
  five fallback entries) in which the search keeps no title writes a file with the banner
  (a line of 60 equals signs after an empty line, the company in capitals, 60 equals signs)
  and then exactly five lines numbered 1 to 5; their texts are the five fallback entries,
  each once, in the order in which Python iterates over the set they were put in, which
  need not be the order of the fallback list.
\<close>

theorem text_file_with_fallback_only:
  assumes "set_iteration ord"
    and "company \<in> set companies"
    and "search_questions_found net company = []"
  shows "\<exists>q1 q2 q3 q4 q5.
     mset [q1, q2, q3, q4, q5] = mset (fallback known_questions company) \<and>
     scrape_questions_main_for [company] net ord =
       join newline
         [newline @ replicate 60 CHR ''='',
          upper company @ '' SYSTEM DESIGN QUESTIONS'',
          replicate 60 CHR ''='',
          ''1. '' @ q1, ''2. '' @ q2, ''3. '' @ q3, ''4. '' @ q4, ''5. '' @ q5]"
proof -
  let ?fb = "fallback known_questions company"
  let ?qs = "search_questions net ord company"
  have qs: "?qs = ord ?fb"
    by (simp add: search_questions_def assms(3) fallback_def Let_def split: option.splits)
  have "distinct ?qs" and "set ?qs = set ?fb"
    by (simp_all add: qs set_iteration_distinct [OF assms(1)] set_iteration_set [OF assms(1)])
  with known_questions_five(2) [OF assms(2)] have perm: "mset ?qs = mset ?fb"
    by (simp add: set_eq_iff_mset_eq_distinct)
  then have "length ?qs = length ?fb"
    by (rule mset_eq_length)
  with known_questions_five(1) [OF assms(2)] have "length ?qs = 5"
    by simp
  then obtain q1 q2 q3 q4 q5 where five: "?qs = [q1, q2, q3, q4, q5]"
    by (rule length_five)
  have "scrape_questions_main_for [company] net ord = join newline (company_lines company ?qs)"
    by (simp add: scrape_questions_main_for_def)
  with five perm show ?thesis
    by (metis company_lines_five)
qed

theorem text_file_with_fallback_only_witness:
  "set_iteration remdups \<and>
   ''Atlassian'' \<in> set companies \<and>
   search_questions_found failing_net ''Atlassian'' = [] \<and>
   (\<exists>q1 q2 q3 q4 q5.
     mset [q1, q2, q3, q4, q5] = mset (fallback known_questions ''Atlassian'') \<and>
     scrape_questions_main_for [''Atlassian''] failing_net remdups =
       join newline
         [newline @ replicate 60 CHR ''='',
          upper ''Atlassian'' @ '' SYSTEM DESIGN QUESTIONS'',
          replicate 60 CHR ''='',
          ''1. '' @ q1, ''2. '' @ q2, ''3. '' @ q3, ''4. '' @ q4, ''5. '' @ q5])"
proof -
  have c: "''Atlassian'' \<in> set companies"
    by (simp add: companies_def)
  have f: "search_questions_found failing_net ''Atlassian'' = []"
    by (simp add: search_questions_found_def failing_net_def)
  from text_file_with_fallback_only [OF set_iteration_remdups c f] set_iteration_remdups c f
  show ?thesis by blast
qed

text \<open>
  Claim C8, as stated, fails: with every request raising and a set that iterates in the
  reverse order of insertion, the five numbered lines of the file for Atlassian are not in
  the order of the fallback list (line 1 is its last entry).
\<close>

theorem text_file_order_counterexample:
  "set_iteration reversed_order \<and>
   search_questions_found failing_net ''Atlassian'' = [] \<and>
   scrape_questions_main_for [''Atlassian''] failing_net reversed_order \<noteq>
     join newline (company_lines ''Atlassian'' (fallback known_questions ''Atlassian''))"
proof -
  have f: "search_questions_found failing_net ''Atlassian'' = []"
    by (simp add: search_questions_found_def failing_net_def)
  have "scrape_questions_main_for [''Atlassian''] failing_net reversed_order \<noteq>
     join newline (company_lines ''Atlassian'' (fallback known_questions ''Atlassian''))"
    unfolding failing_reversed_file fallback_order_file by (simp add: newline_def)
  with f set_iteration_reversed_order show ?thesis by simp
qed

text \<open>
  Claim C2 against the code. The claim holds in the two text variants (a status other than
  200 adds no title and the run goes on, see \<open>non_200_text_variants\<close>). In the JSON
  variant it fails: when GitHub answers the search with status 403 while the two other
  sources answer with 200, \<open>search_github_repos\<close> returns \<open>None\<close> instead of an empty
  list, \<open>scrape_company_questions\<close> raises \<open>TypeError\<close>, the titles of the other sources
  and the fallback entries are lost with it, and the run ends with no company in the results.
\<close>

theorem non_2xx_status_aborts_company:
  "rate_limited_net GitHub (''Atlassian'' @ '' system design interview questions'')
     = Reply 403 sample_body \<and>
   search_leetcode_discuss rate_limited_net ''Atlassian'' =
     Some [''Design of a rate limiter'', ''API design''] \<and>
   search_github_repos rate_limited_net ''Atlassian'' = None \<and>
   scrape_company_questions rate_limited_net remdups ''Atlassian'' [] = Inl TypeError \<and>
   system_design_main rate_limited_net remdups = ([], JObject [])"
  by code_simp

text \<open>
  Claim C1 against the code. The claim holds in the text variant (\<open>fallback_kept_text\<close>)
  and for every list \<open>scrape_company_questions\<close> returns (\<open>fallback_kept_json\<close>). But in
  the JSON variant a source that answers with a status other than 200 makes the call raise
  before the fallback entries are added: when LeetCode answers the search for PayPal with
  status 404, the document saved has no entry for PayPal, and none of PayPal's five fallback
  entries is in the output.
\<close>

theorem fallback_lost_on_non_200_status:
  "fallback extract_common_questions ''PayPal'' =
     [''Design a payment processing system'',
      ''Design a fraud detection system'',
      ''Design a wallet system for digital payments'',
      ''Design a money transfer system'',
      ''Design a merchant payment gateway''] \<and>
   snd (system_design_main refusing_net remdups) =
     JObject
      [(''Atlassian'',
        JArray
         [JString ''Design of a rate limiter'',
          JString ''Atlassian System Design Interview'',
          JString ''primer: A System Design primer'',
          JString ''Design a collaborative document editing system like Confluence'',
          JString ''Design a project management system like Jira'',
          JString ''Design a real-time chat system for teams'',
          JString ''Design a file sharing and collaboration platform'',
          JString ''Design a notification system for team updates'']),
       (''Mastercard'',
        JArray
         [JString ''Design of a rate limiter'',
          JString ''Atlassian System Design Interview'',
          JString ''primer: A System Design primer'',
          JString ''Design a credit card transaction processing system'',
          JString ''Design a real-time fraud detection system'',
          JString ''Design a global payment network'',
          JString ''Design a loyalty points system'',
          JString ''Design a merchant acquiring system''])]"
  by code_simp

end
